theory Spec2Isabelle
  imports Main
begin

section \<open>Python values and text\<close>

text \<open>
  The values of the traced program that the debugger renders with \<open>str\<close>. Python's
  integers are unbounded, so they are \<open>int\<close>.
\<close>

datatype pyval = PyNone | PyBool bool | PyInt int | PyStr string

definition digit_char :: "nat \<Rightarrow> char" where
  "digit_char d = ''0123456789'' ! d"

function show_nat :: "nat \<Rightarrow> string" where
  "show_nat n = (if n < 10 then [digit_char n] else show_nat (n div 10) @ [digit_char (n mod 10)])"
  by pat_completeness auto
termination
  by (relation "measure id") auto

declare show_nat.simps [simp del]

definition show_int :: "int \<Rightarrow> string" where
  "show_int i = (if i < 0 then CHR ''-'' # show_nat (nat (- i)) else show_nat (nat i))"

fun py_str :: "pyval \<Rightarrow> string" where
  "py_str PyNone = ''None''"
| "py_str (PyBool b) = (if b then ''True'' else ''False'')"
| "py_str (PyInt i) = show_int i"
| "py_str (PyStr s) = s"

text \<open>The format specification \<open>4d\<close>: decimal, right-aligned in a field of at least 4.\<close>

definition format_4d :: "int \<Rightarrow> string" where
  "format_4d i = (let s = show_int i in replicate (4 - length s) CHR '' '' @ s)"

text \<open>
  \<open>str.isspace\<close> on the code points below 256: tab to carriage return, the four
  separators 0x1c to 0x1f, space, 0x85 and 0xa0.
\<close>

definition py_isspace :: "char \<Rightarrow> bool" where
  "py_isspace c = ((of_char c :: nat) \<in> set [9, 10, 11, 12, 13, 28, 29, 30, 31, 32, 133, 160])"

definition lstrip :: "string \<Rightarrow> string" where
  "lstrip s = dropWhile py_isspace s"

definition rstrip :: "string \<Rightarrow> string" where
  "rstrip s = rev (dropWhile py_isspace (rev s))"

definition strip :: "string \<Rightarrow> string" where
  "strip s = rstrip (lstrip s)"

text \<open>
  \<open>cmd.split(maxsplit=1)\<close>: leading whitespace is skipped, the first run of
  non-whitespace is the first item, and what follows the next run of whitespace,
  if anything, is the second item, kept verbatim to the end of the line.
\<close>

definition split_maxsplit1 :: "string \<Rightarrow> string list" where
  "split_maxsplit1 s =
     (let s1 = dropWhile py_isspace s in
      if s1 = [] then []
      else
        let word = takeWhile (\<lambda>c. \<not> py_isspace c) s1;
            rest = dropWhile py_isspace (dropWhile (\<lambda>c. \<not> py_isspace c) s1)
        in if rest = [] then [word] else [word, rest])"

text \<open>\<open>d.get(k, default)\<close> on a dictionary kept as an association list in insertion order.\<close>

definition dict_get :: "(string \<times> pyval) list \<Rightarrow> string \<Rightarrow> pyval \<Rightarrow> pyval" where
  "dict_get d k dflt = (case map_of d k of Some v \<Rightarrow> v | None \<Rightarrow> dflt)"

section \<open>Frames, snapshots and source text\<close>

text \<open>
  The interpreter's frame object, with the attributes the debugger reads:
  \<open>f_locals\<close>, \<open>f_globals\<close>, \<open>f_code.co_filename\<close> and \<open>f_lineno\<close>.
\<close>

record py_frame =
  f_locals :: "(string \<times> pyval) list"
  f_globals :: "(string \<times> pyval) list"
  co_filename :: string
  f_lineno :: int

text \<open>
  The object kept in \<open>self.current_frame\<close>. The attributes \<open>filename\<close> and \<open>lineno\<close>
  are always there; \<open>frame\<close> is \<open>Some\<close> for an \<open>inspect.FrameInfo\<close> (the type the
  source declares for the field) and \<open>None\<close> for an object without that attribute,
  where reading \<open>.frame\<close> raises AttributeError.
\<close>

record snapshot =
  filename :: string
  lineno :: int
  frame :: "py_frame option"

text \<open>
  \<open>inspect.getframeinfo(frame)\<close> of the standard library returns an
  \<open>inspect.Traceback\<close>, whose attributes are \<open>filename\<close>, \<open>lineno\<close>, \<open>function\<close>,
  \<open>code_context\<close> and \<open>index\<close> (and \<open>positions\<close>): it has no attribute \<open>frame\<close>.
  Only \<open>inspect.FrameInfo\<close>, which \<open>inspect.stack()\<close> and its relatives return,
  carries the frame.
\<close>

definition getframeinfo :: "py_frame \<Rightarrow> snapshot" where
  "getframeinfo fr = \<lparr>filename = co_filename fr, lineno = f_lineno fr, frame = None\<rparr>"

text \<open>
  The source text behind \<open>linecache\<close>: the lines of each file, in order.
  \<open>linecache.getline\<close> never raises; it returns the empty string when the file
  cannot be read or the line number is out of range.
\<close>

type_synonym sources = "string \<Rightarrow> string list"

definition getline :: "sources \<Rightarrow> string \<Rightarrow> int \<Rightarrow> string" where
  "getline src fname n =
     (if 1 \<le> n \<and> n \<le> int (length (src fname)) then src fname ! nat (n - 1) else [])"

section \<open>Exceptions and the debugger's state\<close>

text \<open>
  \<open>KeyboardInterrupt\<close> and \<open>SystemExit\<close> derive from \<open>BaseException\<close> only;
  \<open>Exception msg\<close> stands for every exception of class \<open>Exception\<close>, with the text
  that \<open>str(e)\<close> gives.
\<close>

datatype excn = KeyboardInterrupt | SystemExit int | Exception string

definition no_frame_attribute :: string where
  "no_frame_attribute =
     [CHR 0x27] @ ''Traceback'' @ [CHR 0x27] @ '' object has no attribute '' @ [CHR 0x27] @ ''frame'' @ [CHR 0x27]"

definition none_has_no_frame :: string where
  "none_has_no_frame =
     [CHR 0x27] @ ''NoneType'' @ [CHR 0x27] @ '' object has no attribute '' @ [CHR 0x27] @ ''frame'' @ [CHR 0x27]"

record debugger =
  step_mode :: bool
  continue_mode :: bool
  current_frame :: "snapshot option"

definition init :: debugger where
  "init = \<lparr>step_mode = False, continue_mode = False, current_frame = None\<rparr>"

text \<open>The expression \<open>self.current_frame.frame\<close>.\<close>

definition current_frame_frame :: "debugger \<Rightarrow> excn + py_frame" where
  "current_frame_frame st =
     (case current_frame st of
        None \<Rightarrow> Inl (Exception none_has_no_frame)
      | Some fi \<Rightarrow> (case frame fi of
                     None \<Rightarrow> Inl (Exception no_frame_attribute)
                   | Some fr \<Rightarrow> Inr fr))"

section \<open>Command handlers\<close>

text \<open>
  A handler takes the debugger, the argument and the text printed so far (one string
  per call of \<open>print\<close>), and either raises or returns the debugger and the output.
  Every handler that raises does so before it changes or prints anything.
\<close>

type_synonym handler = "debugger \<Rightarrow> string \<Rightarrow> string list \<Rightarrow> excn + (debugger \<times> string list)"

definition help_text :: "string list" where
  "help_text =
     [CHR 0x0A # ''Available commands:'',
      ''h: Show this help'',
      ''n: Step to next line'',
      ''p <var>: Print variable value'',
      ''l: List source code around current line'',
      ''c: Continue execution'',
      ''v: Show all local variables'',
      ''q: Quit debugging'']"

definition help_cmd :: handler where
  "help_cmd st arg out = Inr (st, out @ help_text)"

definition step :: handler where
  "step st arg out = Inr (st\<lparr>step_mode := True\<rparr>, out)"

definition continue :: handler where
  "continue st arg out = Inr (st\<lparr>continue_mode := True\<rparr>, out)"

definition print_variable :: handler where
  "print_variable st arg out =
     (if arg = [] then Inr (st, out @ [''Usage: p <variable_name>''])
      else
        (case current_frame_frame st of
           Inr fr \<Rightarrow>
             (let v = dict_get (f_locals fr) arg (dict_get (f_globals fr) arg (PyStr ''<not found>''))
              in Inr (st, out @ [arg @ '' = '' @ py_str v]))
         | Inl (Exception e) \<Rightarrow> Inr (st, out @ [''Error accessing variable: '' @ e])
         | Inl e \<Rightarrow> Inl e))"

definition list_variables :: handler where
  "list_variables st arg out =
     (if current_frame st \<noteq> None then
        (case current_frame_frame st of
           Inl e \<Rightarrow> Inl e
         | Inr fr \<Rightarrow>
             Inr (st, out @ map (\<lambda>(name, v). name @ '' = '' @ py_str v) (f_locals fr)))
      else Inr (st, out))"

definition source_line :: "sources \<Rightarrow> string \<Rightarrow> int \<Rightarrow> int \<Rightarrow> string" where
  "source_line src fname current_line line_num =
     (let line = rstrip (getline src fname line_num);
          marker = (if line_num = current_line then ''-->'' else ''   '')
      in marker @ '' '' @ format_4d line_num @ '' '' @ line)"

definition list_source :: "sources \<Rightarrow> handler" where
  "list_source src st arg out =
     (if current_frame st = None then Inr (st, out)
      else
        (case current_frame_frame st of
           Inl e \<Rightarrow> Inl e
         | Inr fr \<Rightarrow>
             (let fname = co_filename fr;
                  current_line = f_lineno fr;
                  start_line = max (current_line - 5) 1;
                  end_line = current_line + 5
              in Inr (st, out @ [CHR 0x0A # ''Source code around line '' @ show_int current_line @ '':'']
                            @ map (source_line src fname current_line) [start_line..end_line]))))"

definition quit :: handler where
  "quit st arg out = Inl (SystemExit 0)"

definition commands :: "sources \<Rightarrow> (string \<times> handler) list" where
  "commands src =
     [(''h'', help_cmd), (''n'', step), (''p'', print_variable), (''l'', list_source src),
      (''c'', continue), (''v'', list_variables), (''q'', quit)]"

section \<open>The prompt loop\<close>

text \<open>
  What one call of \<open>input\<close> gives: a line of text (without its newline), or an
  exception raised inside the call (an interrupt from the keyboard, an end of file,
  which is an \<open>Exception\<close>, or anything else).
\<close>

datatype input_event = Line string | Raises excn

text \<open>
  How a call that reads from the operator ends: it returns a value, an exception leaves
  it, or the script of input events is used up while it is still waiting at the prompt.
  Each case carries the state and the output so far; the first two carry the input
  events not yet read.
\<close>

datatype ('r, 's) outcome =
    Returned 'r 's "string list" "input_event list"
  | Propagated excn 's "string list" "input_event list"
  | Waiting 's "string list"

datatype prompt_outcome = ResumeExecution | KeepPrompting

definition prompt :: string where
  "prompt = ''(SimpleDebugger) ''"

definition interrupt_hint :: string where
  "interrupt_hint = CHR 0x0A # ''Use '' @ [CHR 0x27] @ ''q'' @ [CHR 0x27] @ '' to quit''"

definition unpack_error :: string where
  "unpack_error = ''not enough values to unpack (expected at least 1, got 0)''"

text \<open>
  The body of the \<open>try\<close> block after \<open>input\<close> has returned \<open>cmd\<close>: \<open>Inl\<close> is an
  exception raised in the body, \<open>ResumeExecution\<close> is the \<open>break\<close>, and
  \<open>KeepPrompting\<close> is the end of the body or its \<open>continue\<close>. The table is
  \<open>self.commands\<close>.
\<close>

definition dispatch_line ::
  "(string \<times> handler) list \<Rightarrow> debugger \<Rightarrow> string \<Rightarrow> string list
     \<Rightarrow> excn + (prompt_outcome \<times> debugger \<times> string list)" where
  "dispatch_line tbl st cmd out =
     (if cmd = [] then Inr (KeepPrompting, st, out)
      else
        (case split_maxsplit1 cmd of
           [] \<Rightarrow> Inl (Exception unpack_error)
         | command # args \<Rightarrow>
             (let arg = (case args of [] \<Rightarrow> [] | a # _ \<Rightarrow> a) in
              case map_of tbl command of
                Some h \<Rightarrow>
                  (case h st arg out of
                     Inl e \<Rightarrow> Inl e
                   | Inr (st', out') \<Rightarrow>
                       if command \<in> set [''n'', ''c''] then Inr (ResumeExecution, st', out')
                       else Inr (KeepPrompting, st', out'))
              | None \<Rightarrow>
                  (case help_cmd st [] (out @ [''Unknown command: '' @ command]) of
                     Inl e \<Rightarrow> Inl e
                   | Inr (st', out') \<Rightarrow> Inr (KeepPrompting, st', out')))))"

text \<open>
  One pass of the \<open>while True\<close> loop: \<open>input\<close> writes the prompt and reads an event,
  the body runs, and the two \<open>except\<close> clauses take \<open>KeyboardInterrupt\<close> and
  \<open>Exception\<close>. \<open>Inl\<close> is an exception that neither clause takes.
\<close>

definition prompt_step ::
  "(string \<times> handler) list \<Rightarrow> debugger \<Rightarrow> input_event \<Rightarrow> string list
     \<Rightarrow> excn + (prompt_outcome \<times> debugger \<times> string list)" where
  "prompt_step tbl st ev out =
     (case (case ev of Raises e \<Rightarrow> Inl e | Line cmd \<Rightarrow> dispatch_line tbl st cmd (out @ [prompt])) of
        Inr r \<Rightarrow> Inr r
      | Inl KeyboardInterrupt \<Rightarrow> Inr (KeepPrompting, st, out @ [prompt, interrupt_hint])
      | Inl (Exception e) \<Rightarrow> Inr (KeepPrompting, st, out @ [prompt, ''Error: '' @ e])
      | Inl (SystemExit code) \<Rightarrow> Inl (SystemExit code))"

fun prompt_command ::
  "(string \<times> handler) list \<Rightarrow> debugger \<Rightarrow> input_event list \<Rightarrow> string list \<Rightarrow> (unit, debugger) outcome" where
  "prompt_command tbl st [] out = Waiting st (out @ [prompt])"
| "prompt_command tbl st (ev # evs) out =
     (case prompt_step tbl st ev out of
        Inl e \<Rightarrow> Propagated e st (out @ [prompt]) evs
      | Inr (ResumeExecution, st', out') \<Rightarrow> Returned () st' out' evs
      | Inr (KeepPrompting, st', out') \<Rightarrow> prompt_command tbl st' evs out')"

section \<open>The trace callback\<close>

definition show_current_line :: "sources \<Rightarrow> debugger \<Rightarrow> string list \<Rightarrow> string list" where
  "show_current_line src st out =
     (case current_frame st of
        None \<Rightarrow> out
      | Some fi \<Rightarrow>
          (let line = strip (getline src (filename fi) (lineno fi))
           in out @ [CHR 0x0A # ''At '' @ filename fi @ '':'' @ show_int (lineno fi), ''--> '' @ line]))"

text \<open>
  What the callback returns to the interpreter: itself (\<open>KeepObserving\<close>) or \<open>None\<close>
  (\<open>Detach\<close>).
\<close>

datatype decision = KeepObserving | Detach

definition observer_decision :: "debugger \<Rightarrow> decision" where
  "observer_decision st = (if \<not> continue_mode st then KeepObserving else Detach)"

definition trace_function ::
  "sources \<Rightarrow> debugger \<Rightarrow> py_frame \<Rightarrow> string \<Rightarrow> input_event list \<Rightarrow> string list \<Rightarrow> (decision, debugger) outcome" where
  "trace_function src st fr event evs out =
     (if event = ''line'' then
        (let st1 = st\<lparr>current_frame := Some (getframeinfo fr)\<rparr> in
         if \<not> continue_mode st1 then
           (case prompt_command (commands src) st1 evs (show_current_line src st1 out) of
              Returned u st2 out2 evs2 \<Rightarrow>
                (let st3 = st2\<lparr>step_mode := False\<rparr>
                 in Returned (observer_decision st3) st3 out2 evs2)
            | Propagated e st2 out2 evs2 \<Rightarrow> Propagated e st2 out2 evs2
            | Waiting st2 out2 \<Rightarrow> Waiting st2 out2)
         else
           (let st3 = st1\<lparr>step_mode := False\<rparr>
            in Returned (observer_decision st3) st3 out evs))
      else Returned (observer_decision st) st out evs)"

text \<open>
  A session: the interpreter calls the callback for a sequence of events, each with
  its frame, and the debugger's state, the operator's input and the output carry over
  from one call to the next. The value returned is the list of decisions. The
  sequence is arbitrary, so it covers every order in which the interpreter may
  deliver events.
\<close>

fun session ::
  "sources \<Rightarrow> debugger \<Rightarrow> (py_frame \<times> string) list \<Rightarrow> input_event list \<Rightarrow> string list
     \<Rightarrow> (decision list, debugger) outcome" where
  "session src st [] evs out = Returned [] st out evs"
| "session src st ((fr, event) # rest) evs out =
     (case trace_function src st fr event evs out of
        Returned d st' out' evs' \<Rightarrow>
          (case session src st' rest evs' out' of
             Returned ds st'' out'' evs'' \<Rightarrow> Returned (d # ds) st'' out'' evs''
           | Propagated e st'' out'' evs'' \<Rightarrow> Propagated e st'' out'' evs''
           | Waiting st'' out'' \<Rightarrow> Waiting st'' out'')
      | Propagated e st' out' evs' \<Rightarrow> Propagated e st' out' evs'
      | Waiting st' out' \<Rightarrow> Waiting st' out')"

section \<open>The debugger without the step flag\<close>

text \<open>
  The same debugger with every use of \<open>step_mode\<close> taken out: the handler of \<open>n\<close>
  does nothing, and the callback does not reset the flag. Everything else is the code
  above. It is what the source is compared with to show that the flag is never read.
\<close>

definition nf_step :: handler where
  "nf_step st arg out = Inr (st, out)"

definition nf_commands :: "sources \<Rightarrow> (string \<times> handler) list" where
  "nf_commands src =
     [(''h'', help_cmd), (''n'', nf_step), (''p'', print_variable), (''l'', list_source src),
      (''c'', continue), (''v'', list_variables), (''q'', quit)]"

definition nf_trace_function ::
  "sources \<Rightarrow> debugger \<Rightarrow> py_frame \<Rightarrow> string \<Rightarrow> input_event list \<Rightarrow> string list \<Rightarrow> (decision, debugger) outcome" where
  "nf_trace_function src st fr event evs out =
     (if event = ''line'' then
        (let st1 = st\<lparr>current_frame := Some (getframeinfo fr)\<rparr> in
         if \<not> continue_mode st1 then
           (case prompt_command (nf_commands src) st1 evs (show_current_line src st1 out) of
              Returned u st2 out2 evs2 \<Rightarrow> Returned (observer_decision st2) st2 out2 evs2
            | Propagated e st2 out2 evs2 \<Rightarrow> Propagated e st2 out2 evs2
            | Waiting st2 out2 \<Rightarrow> Waiting st2 out2)
         else Returned (observer_decision st1) st1 out evs)
      else Returned (observer_decision st) st out evs)"

fun nf_session ::
  "sources \<Rightarrow> debugger \<Rightarrow> (py_frame \<times> string) list \<Rightarrow> input_event list \<Rightarrow> string list
     \<Rightarrow> (decision list, debugger) outcome" where
  "nf_session src st [] evs out = Returned [] st out evs"
| "nf_session src st ((fr, event) # rest) evs out =
     (case nf_trace_function src st fr event evs out of
        Returned d st' out' evs' \<Rightarrow>
          (case nf_session src st' rest evs' out' of
             Returned ds st'' out'' evs'' \<Rightarrow> Returned (d # ds) st'' out'' evs''
           | Propagated e st'' out'' evs'' \<Rightarrow> Propagated e st'' out'' evs''
           | Waiting st'' out'' \<Rightarrow> Waiting st'' out'')
      | Propagated e st' out' evs' \<Rightarrow> Propagated e st' out' evs'
      | Waiting st' out' \<Rightarrow> Waiting st' out')"

text \<open>What of the debugger's state can be observed once the flag is left out.\<close>

definition visible :: "debugger \<Rightarrow> bool \<times> snapshot option" where
  "visible st = (continue_mode st, current_frame st)"

section \<open>A small program under the debugger\<close>

text \<open>
  The frame of the repository's \<open>example_function(3)\<close> as its third line is about to
  run, the text of that function, and the snapshot an \<open>inspect.FrameInfo\<close> of that
  frame would be.
\<close>

definition demo_src :: sources where
  "demo_src fname =
     (if fname = ''wee_bugger.py'' then
        [''def example_function(n):'' @ [CHR 0x0A],
         ''    x = 1'' @ [CHR 0x0A],
         ''    y = 2'' @ [CHR 0x0A],
         ''    result = x + y + n'' @ [CHR 0x0A],
         ''    for i in range(n):'' @ [CHR 0x0A],
         ''        result += i'' @ [CHR 0x0A],
         ''    return result'' @ [CHR 0x0A]]
      else [])"

definition demo_frame :: py_frame where
  "demo_frame =
     \<lparr>f_locals = [(''n'', PyInt 3), (''x'', PyInt 1)],
      f_globals = [(''x'', PyStr ''global''), (''__name__'', PyStr ''__main__'')],
      co_filename = ''wee_bugger.py'',
      f_lineno = 3\<rparr>"

definition demo_frame_info :: snapshot where
  "demo_frame_info = \<lparr>filename = ''wee_bugger.py'', lineno = 3, frame = Some demo_frame\<rparr>"

section \<open>Evaluation and basic facts\<close>

lemmas text_defs = split_maxsplit1_def py_isspace_def lstrip_def rstrip_def strip_def
  show_int_def show_nat.simps digit_char_def format_4d_def getline_def dict_get_def

lemmas debugger_defs = dispatch_line_def prompt_step_def commands_def help_cmd_def step_def
  continue_def print_variable_def list_variables_def list_source_def source_line_def quit_def
  current_frame_frame_def show_current_line_def trace_function_def observer_decision_def
  getframeinfo_def init_def

lemmas demo_defs = demo_src_def demo_frame_def demo_frame_info_def

lemma split_maxsplit1_Nil: "split_maxsplit1 [] = []"
  by (simp add: split_maxsplit1_def)

lemma split_maxsplit1_Cons_nonempty: "split_maxsplit1 cmd = command # args \<Longrightarrow> cmd \<noteq> []"
  by (auto simp: split_maxsplit1_Nil)

text \<open>The second item of the split, when there is one, is not empty.\<close>

lemma split_maxsplit1_arg_nonempty: "split_maxsplit1 cmd = [w, r] \<Longrightarrow> r \<noteq> []"
proof -
  assume h: "split_maxsplit1 cmd = [w, r]"
  define s1 where "s1 = dropWhile py_isspace cmd"
  define rest where "rest = dropWhile py_isspace (dropWhile (\<lambda>c. \<not> py_isspace c) s1)"
  define word where "word = takeWhile (\<lambda>c. \<not> py_isspace c) s1"
  have e: "split_maxsplit1 cmd = (if s1 = [] then [] else if rest = [] then [word] else [word, rest])"
    unfolding split_maxsplit1_def s1_def rest_def word_def Let_def ..
  show "r \<noteq> []"
  proof (cases "s1 = []")
    case True
    with e h show ?thesis by simp
  next
    case False
    show ?thesis
    proof (cases "rest = []")
      case True
      with False e h show ?thesis by simp
    next
      case r: False
      with False e h have "r = rest" by simp
      with r show ?thesis by simp
    qed
  qed
qed

lemma map_of_commands:
  "map_of (commands src) ''h'' = Some help_cmd"
  "map_of (commands src) ''n'' = Some step"
  "map_of (commands src) ''p'' = Some print_variable"
  "map_of (commands src) ''l'' = Some (list_source src)"
  "map_of (commands src) ''c'' = Some continue"
  "map_of (commands src) ''v'' = Some list_variables"
  "map_of (commands src) ''q'' = Some quit"
  by (simp_all add: commands_def)

text \<open>A line whose first word is a key of the table runs that key's handler.\<close>

lemma dispatch_line_known:
  assumes "split_maxsplit1 cmd = command # args" and "map_of tbl command = Some h"
  shows "dispatch_line tbl st cmd out =
     (case h st (case args of [] \<Rightarrow> [] | a # _ \<Rightarrow> a) out of
        Inl e \<Rightarrow> Inl e
      | Inr (st', out') \<Rightarrow>
          Inr (if command = ''n'' \<or> command = ''c'' then ResumeExecution else KeepPrompting, st', out'))"
proof -
  have ne: "cmd \<noteq> []" using assms(1) by (rule split_maxsplit1_Cons_nonempty)
  show ?thesis
    unfolding dispatch_line_def using ne assms
    by (simp add: Let_def split: sum.split)
qed

text \<open>The three ways one pass of the loop can go.\<close>

lemma prompt_command_keep:
  "prompt_step tbl st ev out = Inr (KeepPrompting, st', out') \<Longrightarrow>
   prompt_command tbl st (ev # evs) out = prompt_command tbl st' evs out'"
  by simp

lemma prompt_command_resume:
  "prompt_step tbl st ev out = Inr (ResumeExecution, st', out') \<Longrightarrow>
   prompt_command tbl st (ev # evs) out = Returned () st' out' evs"
  by simp

lemma prompt_command_raise:
  "prompt_step tbl st ev out = Inl e \<Longrightarrow>
   prompt_command tbl st (ev # evs) out = Propagated e st (out @ [prompt]) evs"
  by simp

section \<open>The print command and the prompt loop\<close>

text \<open>
  C1, as the code has it: when the operator enters the print command \<open>p\<close> with a
  non-empty argument, the prompt loop treats it as KeepPrompting. After the prompt,
  exactly the handler's one line is printed: \<open>name = value\<close> by the lookup rule
  when the snapshot carries the frame, and the handler's error line when reading
  \<open>.frame\<close> raises. The debugger's state is unchanged and the loop goes on to read
  the next command; the traced program does not advance.
\<close>

theorem print_keeps_prompting:
  assumes "split_maxsplit1 cmd = [''p'', arg]"
  shows "prompt_step (commands src) st (Line cmd) out =
           Inr (KeepPrompting, st,
                out @ [prompt,
                       (case current_frame st of
                          None \<Rightarrow> ''Error accessing variable: '' @ none_has_no_frame
                        | Some fi \<Rightarrow>
                            (case frame fi of
                               None \<Rightarrow> ''Error accessing variable: '' @ no_frame_attribute
                             | Some fr \<Rightarrow>
                                 arg @ '' = '' @
                                 py_str (dict_get (f_locals fr) arg
                                           (dict_get (f_globals fr) arg (PyStr ''<not found>'')))))])
         \<and> prompt_command (commands src) st (Line cmd # evs) out =
             prompt_command (commands src) st evs
               (out @ [prompt,
                       (case current_frame st of
                          None \<Rightarrow> ''Error accessing variable: '' @ none_has_no_frame
                        | Some fi \<Rightarrow>
                            (case frame fi of
                               None \<Rightarrow> ''Error accessing variable: '' @ no_frame_attribute
                             | Some fr \<Rightarrow>
                                 arg @ '' = '' @
                                 py_str (dict_get (f_locals fr) arg
                                           (dict_get (f_globals fr) arg (PyStr ''<not found>'')))))])"
proof -
  let ?line = "case current_frame st of
                 None \<Rightarrow> ''Error accessing variable: '' @ none_has_no_frame
               | Some fi \<Rightarrow>
                   (case frame fi of
                      None \<Rightarrow> ''Error accessing variable: '' @ no_frame_attribute
                    | Some fr \<Rightarrow>
                        arg @ '' = '' @
                        py_str (dict_get (f_locals fr) arg
                                  (dict_get (f_globals fr) arg (PyStr ''<not found>''))))"
  have ne: "arg \<noteq> []" using assms by (rule split_maxsplit1_arg_nonempty)
  have p: "print_variable st arg (out @ [prompt]) = Inr (st, out @ [prompt, ?line])"
    using ne by (simp add: print_variable_def current_frame_frame_def Let_def split: option.split)
  have "dispatch_line (commands src) st cmd (out @ [prompt]) = Inr (KeepPrompting, st, out @ [prompt, ?line])"
    using dispatch_line_known [OF assms map_of_commands(3)] p by simp
  then have s: "prompt_step (commands src) st (Line cmd) out = Inr (KeepPrompting, st, out @ [prompt, ?line])"
    by (simp add: prompt_step_def)
  then have "prompt_command (commands src) st (Line cmd # evs) out =
      prompt_command (commands src) st evs (out @ [prompt, ?line])"
    by (rule prompt_command_keep)
  with s show ?thesis by blast
qed

theorem print_keeps_prompting_witness:
  "split_maxsplit1 ''p x'' = [''p'', ''x'']
   \<and> prompt_step (commands demo_src) (init\<lparr>current_frame := Some (getframeinfo demo_frame)\<rparr>)
       (Line ''p x'') [] =
     Inr (KeepPrompting, init\<lparr>current_frame := Some (getframeinfo demo_frame)\<rparr>,
          [prompt, ''Error accessing variable: '' @ no_frame_attribute])
   \<and> prompt_command (commands demo_src) (init\<lparr>current_frame := Some (getframeinfo demo_frame)\<rparr>)
       [Line ''p x'', Line ''n''] [] =
     prompt_command (commands demo_src) (init\<lparr>current_frame := Some (getframeinfo demo_frame)\<rparr>)
       [Line ''n''] [prompt, ''Error accessing variable: '' @ no_frame_attribute]
   \<and> prompt_step (commands demo_src) (init\<lparr>current_frame := Some demo_frame_info\<rparr>)
       (Line ''p x'') [] =
     Inr (KeepPrompting, init\<lparr>current_frame := Some demo_frame_info\<rparr>, [prompt, ''x = 1''])"
proof -
  have h: "split_maxsplit1 ''p x'' = [''p'', ''x'']"
    by (simp add: split_maxsplit1_def py_isspace_def)
  have v: "py_str (dict_get (f_locals demo_frame) ''x''
             (dict_get (f_globals demo_frame) ''x'' (PyStr ''<not found>''))) = ''1''"
    by (simp add: text_defs demo_defs)
  show ?thesis
    using h v
      print_keeps_prompting [OF h, of demo_src "init\<lparr>current_frame := Some (getframeinfo demo_frame)\<rparr>" "[]" "[Line ''n'']"]
      print_keeps_prompting [OF h, of demo_src "init\<lparr>current_frame := Some demo_frame_info\<rparr>" "[]" "[Line ''n'']"]
    by (simp add: getframeinfo_def demo_frame_info_def del: prompt_command.simps)
qed

text \<open>
  C1 as stated fails: after \<open>p x\<close> the loop has not ended. It has printed the
  handler's line and is waiting at a fresh prompt, both for the snapshot that a line
  event stores and for a snapshot that carries the frame.
\<close>

theorem print_resumes_counterexample:
  "prompt_command (commands demo_src) (init\<lparr>current_frame := Some (getframeinfo demo_frame)\<rparr>)
     [Line ''p x''] [] =
   Waiting (init\<lparr>current_frame := Some (getframeinfo demo_frame)\<rparr>)
     [prompt, ''Error accessing variable: '' @ no_frame_attribute, prompt]
   \<and> prompt_command (commands demo_src) (init\<lparr>current_frame := Some demo_frame_info\<rparr>)
     [Line ''p x''] [] =
   Waiting (init\<lparr>current_frame := Some demo_frame_info\<rparr>) [prompt, ''x = 1'', prompt]"
  by (simp add: text_defs debugger_defs demo_defs Let_def)

text \<open>
  C2: for every input line whose command key is in the command table and whose handler
  completes, the pass of the loop yields ResumeExecution exactly when the key is \<open>n\<close>
  or \<open>c\<close>; then the loop ends with the input that follows unread, and for every other
  key the loop goes on with the next input.
\<close>

theorem resume_iff_step_or_continue:
  assumes "split_maxsplit1 cmd = command # args"
    and "map_of (commands src) command = Some h"
    and "h st (case args of [] \<Rightarrow> [] | a # _ \<Rightarrow> a) (out @ [prompt]) = Inr (st', out')"
  shows "prompt_step (commands src) st (Line cmd) out =
           Inr (if command = ''n'' \<or> command = ''c'' then ResumeExecution else KeepPrompting, st', out')
         \<and> prompt_command (commands src) st (Line cmd # evs) out =
           (if command = ''n'' \<or> command = ''c'' then Returned () st' out' evs
            else prompt_command (commands src) st' evs out')"
proof -
  have d: "dispatch_line (commands src) st cmd (out @ [prompt]) =
      Inr (if command = ''n'' \<or> command = ''c'' then ResumeExecution else KeepPrompting, st', out')"
    using dispatch_line_known [OF assms(1,2)] assms(3) by simp
  then have s: "prompt_step (commands src) st (Line cmd) out =
      Inr (if command = ''n'' \<or> command = ''c'' then ResumeExecution else KeepPrompting, st', out')"
    by (simp add: prompt_step_def)
  show ?thesis
  proof (cases "command = ''n'' \<or> command = ''c''")
    case True
    with s show ?thesis by (simp add: prompt_command_resume)
  next
    case False
    with s show ?thesis by (simp add: prompt_command_keep)
  qed
qed

theorem resume_iff_step_or_continue_witness:
  "(split_maxsplit1 ''n'' = [''n'']
    \<and> map_of (commands demo_src) ''n'' = Some step
    \<and> step init [] [prompt] = Inr (init\<lparr>step_mode := True\<rparr>, [prompt])
    \<and> prompt_command (commands demo_src) init [Line ''n'', Line ''h''] [] =
        Returned () (init\<lparr>step_mode := True\<rparr>) [prompt] [Line ''h''])
   \<and> (split_maxsplit1 ''h'' = [''h'']
      \<and> map_of (commands demo_src) ''h'' = Some help_cmd
      \<and> help_cmd init [] [prompt] = Inr (init, prompt # help_text)
      \<and> prompt_command (commands demo_src) init [Line ''h'', Line ''n''] [] =
          prompt_command (commands demo_src) init [Line ''n''] (prompt # help_text))"
proof -
  have n1: "split_maxsplit1 ''n'' = ''n'' # []"
    by (simp add: split_maxsplit1_def py_isspace_def)
  have n2: "map_of (commands demo_src) ''n'' = Some step"
    by (simp add: commands_def)
  have n3: "step init (case [] of [] \<Rightarrow> [] | a # x \<Rightarrow> a) ([] @ [prompt]) = Inr (init\<lparr>step_mode := True\<rparr>, [prompt])"
    by (simp add: step_def)
  have h1: "split_maxsplit1 ''h'' = ''h'' # []"
    by (simp add: split_maxsplit1_def py_isspace_def)
  have h2: "map_of (commands demo_src) ''h'' = Some help_cmd"
    by (simp add: commands_def)
  have h3: "help_cmd init (case [] of [] \<Rightarrow> [] | a # x \<Rightarrow> a) ([] @ [prompt]) = Inr (init, prompt # help_text)"
    by (simp add: help_cmd_def)
  show ?thesis
    using n1 n2 n3 h1 h2 h3
      resume_iff_step_or_continue [OF n1 n2 n3, of "[Line ''h'']"]
      resume_iff_step_or_continue [OF h1 h2 h3, of "[Line ''n'']"]
    by (simp del: prompt_command.simps)
qed

section \<open>Looking up a variable\<close>

text \<open>
  On a snapshot that carries the frame, the handler of \<open>p\<close> looks the name up in
  \<open>f_locals\<close> first, then in \<open>f_globals\<close>, and prints the text \<open><not found>\<close>
  when neither binds it.
\<close>

lemma print_variable_on_frame_info:
  assumes "current_frame st = Some fi" and "frame fi = Some fr" and "arg \<noteq> []"
  shows "(map_of (f_locals fr) arg = Some v \<longrightarrow>
            print_variable st arg out = Inr (st, out @ [arg @ '' = '' @ py_str v]))
       \<and> (map_of (f_locals fr) arg = None \<and> map_of (f_globals fr) arg = Some v \<longrightarrow>
            print_variable st arg out = Inr (st, out @ [arg @ '' = '' @ py_str v]))
       \<and> (map_of (f_locals fr) arg = None \<and> map_of (f_globals fr) arg = None \<longrightarrow>
            print_variable st arg out = Inr (st, out @ [arg @ '' = <not found>'']))"
  using assms by (simp add: print_variable_def current_frame_frame_def dict_get_def)

text \<open>
  The snapshot that the callback stores on a line event is the result of
  \<open>getframeinfo\<close>, so in a session the handler never reaches the lookup: reading
  \<open>.frame\<close> raises, and the handler's own \<open>except\<close> clause prints the error.
\<close>

lemma print_variable_after_line_event:
  assumes "arg \<noteq> []"
  shows "print_variable (st\<lparr>current_frame := Some (getframeinfo fr)\<rparr>) arg out =
           Inr (st\<lparr>current_frame := Some (getframeinfo fr)\<rparr>,
                out @ [''Error accessing variable: '' @ no_frame_attribute])"
  using assms by (simp add: print_variable_def current_frame_frame_def getframeinfo_def)

text \<open>
  C3, at a line event of the example program where \<open>x\<close> is bound to 1 in the locals:
  the operator enters \<open>p x\<close> and then \<open>n\<close>. The line printed for \<open>p x\<close> is the
  error text, not \<open>x = 1\<close>.
\<close>

theorem print_variable_in_session:
  "trace_function demo_src init demo_frame ''line'' [Line ''p x'', Line ''n''] [] =
     Returned KeepObserving (init\<lparr>current_frame := Some (getframeinfo demo_frame)\<rparr>)
       [CHR 0x0A # ''At wee_bugger.py:3'', ''--> y = 2'', prompt,
        ''Error accessing variable: '' @ no_frame_attribute, prompt] []"
  by (simp add: text_defs debugger_defs demo_defs Let_def)

section \<open>Listing the source\<close>

lemma getline_past_end: "int (length (src fname)) < n \<Longrightarrow> getline src fname n = []"
  by (simp add: getline_def)

lemma source_line_marker:
  "take 3 (source_line src fname current_line line_num) =
     (if line_num = current_line then ''-->'' else ''   '')"
  by (simp add: source_line_def Let_def)

lemma source_line_past_end:
  "int (length (src fname)) < line_num \<Longrightarrow>
   source_line src fname current_line line_num =
     (if line_num = current_line then ''-->'' else ''   '') @ '' '' @ format_4d line_num @ '' ''"
  by (simp add: source_line_def getline_past_end rstrip_def)

text \<open>
  On a snapshot that carries the frame, the handler of \<open>l\<close> prints the heading and
  then one line for each number from \<open>max (L - 5) 1\<close> to \<open>L + 5\<close> in increasing order;
  the current line is among them once, when it is at least 1.
\<close>

lemma list_source_on_frame_info:
  assumes "current_frame st = Some fi" and "frame fi = Some fr"
  shows "list_source src st arg out =
           Inr (st, out @ [CHR 0x0A # ''Source code around line '' @ show_int (f_lineno fr) @ '':'']
                        @ map (source_line src (co_filename fr) (f_lineno fr))
                            [max (f_lineno fr - 5) 1..f_lineno fr + 5])"
  using assms by (simp add: list_source_def current_frame_frame_def Let_def)

lemma current_line_listed_once:
  "1 \<le> L \<Longrightarrow> filter (\<lambda>n. n = L) [max (L - 5) 1..L + 5] = [L]"
proof -
  assume "1 \<le> (L::int)"
  then have "[max (L - 5) 1..L + 5] = [max (L - 5) 1..L - 1] @ L # [L + 1..L + 5]"
    using upto_split3 [of "max (L - 5) 1" L "L + 5"] by simp
  then show ?thesis by (simp add: filter_empty_conv)
qed

text \<open>In a session the snapshot has no frame, and the handler raises before it prints.\<close>

lemma list_source_after_line_event:
  "list_source src (st\<lparr>current_frame := Some (getframeinfo fr)\<rparr>) arg out =
     Inl (Exception no_frame_attribute)"
  by (simp add: list_source_def current_frame_frame_def getframeinfo_def)

text \<open>
  C4, at a line event of the example program on line 3: the operator enters \<open>l\<close> and
  then \<open>n\<close>. No source line is listed; the loop prints the error that the handler
  raised.
\<close>

theorem list_source_in_session:
  "trace_function demo_src init demo_frame ''line'' [Line ''l'', Line ''n''] [] =
     Returned KeepObserving (init\<lparr>current_frame := Some (getframeinfo demo_frame)\<rparr>)
       [CHR 0x0A # ''At wee_bugger.py:3'', ''--> y = 2'', prompt,
        ''Error: '' @ no_frame_attribute, prompt] []"
  by (simp add: text_defs debugger_defs demo_defs Let_def)

section \<open>The step flag\<close>

text \<open>
  C5: whenever the callback returns from a line event, \<open>step_mode\<close> is false in the
  state it leaves, whatever the operator entered. In particular, outside continue mode
  the command \<open>n\<close> ends the prompt loop with the flag set, and the callback returns
  with the flag cleared.
\<close>

theorem step_mode_reset_on_return:
  "(trace_function src st fr ''line'' evs out = Returned d st' out' evs' \<longrightarrow> \<not> step_mode st')
   \<and> (\<not> continue_mode st \<and> split_maxsplit1 cmd = ''n'' # args \<longrightarrow>
        prompt_command (commands src) (st\<lparr>current_frame := Some (getframeinfo fr)\<rparr>) (Line cmd # evs) out1
          = Returned () (st\<lparr>current_frame := Some (getframeinfo fr), step_mode := True\<rparr>) (out1 @ [prompt]) evs
        \<and> trace_function src st fr ''line'' (Line cmd # evs) out
          = Returned KeepObserving (st\<lparr>current_frame := Some (getframeinfo fr), step_mode := False\<rparr>)
              (show_current_line src (st\<lparr>current_frame := Some (getframeinfo fr)\<rparr>) out @ [prompt]) evs)"
proof -
  have a: "\<not> step_mode st'" if "trace_function src st fr ''line'' evs out = Returned d st' out' evs'"
    using that by (auto simp: trace_function_def Let_def split: if_splits outcome.splits)
  have b: "prompt_command (commands src) s (Line cmd # evs) o1
          = Returned () (s\<lparr>step_mode := True\<rparr>) (o1 @ [prompt]) evs"
    if "split_maxsplit1 cmd = ''n'' # args" for s o1
  proof -
    have "dispatch_line (commands src) s cmd (o1 @ [prompt]) =
        Inr (ResumeExecution, s\<lparr>step_mode := True\<rparr>, o1 @ [prompt])"
      using dispatch_line_known [OF that map_of_commands(2)] by (simp add: step_def)
    then have "prompt_step (commands src) s (Line cmd) o1 =
        Inr (ResumeExecution, s\<lparr>step_mode := True\<rparr>, o1 @ [prompt])"
      by (simp add: prompt_step_def)
    then show ?thesis by (rule prompt_command_resume)
  qed
  have c: "trace_function src st fr ''line'' (Line cmd # evs) out
          = Returned KeepObserving (st\<lparr>current_frame := Some (getframeinfo fr), step_mode := False\<rparr>)
              (show_current_line src (st\<lparr>current_frame := Some (getframeinfo fr)\<rparr>) out @ [prompt]) evs"
    if "\<not> continue_mode st" "split_maxsplit1 cmd = ''n'' # args"
    using that by (simp add: trace_function_def Let_def b observer_decision_def del: prompt_command.simps)
  from a b c show ?thesis by auto
qed

theorem step_mode_reset_on_return_witness:
  "(\<not> continue_mode init \<and> split_maxsplit1 ''n'' = [''n''])
   \<and> prompt_command (commands demo_src) (init\<lparr>current_frame := Some (getframeinfo demo_frame)\<rparr>)
       [Line ''n''] [] =
     Returned () (init\<lparr>current_frame := Some (getframeinfo demo_frame), step_mode := True\<rparr>) [prompt] []
   \<and> trace_function demo_src init demo_frame ''line'' [Line ''n''] [] =
     Returned KeepObserving (init\<lparr>current_frame := Some (getframeinfo demo_frame), step_mode := False\<rparr>)
       (show_current_line demo_src (init\<lparr>current_frame := Some (getframeinfo demo_frame)\<rparr>) [] @ [prompt]) []
   \<and> \<not> step_mode (init\<lparr>current_frame := Some (getframeinfo demo_frame), step_mode := False\<rparr>)"
proof -
  have h: "\<not> continue_mode init \<and> split_maxsplit1 ''n'' = ''n'' # []"
    by (simp add: init_def split_maxsplit1_def py_isspace_def)
  let ?st = "init\<lparr>current_frame := Some (getframeinfo demo_frame), step_mode := False\<rparr>"
  let ?out = "show_current_line demo_src (init\<lparr>current_frame := Some (getframeinfo demo_frame)\<rparr>) [] @ [prompt]"
  show ?thesis
    using h
      step_mode_reset_on_return [of demo_src init demo_frame "[]" "[]" KeepObserving ?st ?out "[]" "''n''" "[]" "[]"]
      step_mode_reset_on_return [of demo_src init demo_frame "[Line ''n'']" "[]" KeepObserving ?st ?out "[]" "''n''" "[]" "[]"]
    by (simp del: prompt_command.simps)
qed

section \<open>Events other than line events\<close>

text \<open>
  C7, as the code has it: for every event whose kind is not \<open>line\<close>, the callback
  leaves the debugger's state (both mode flags and the current snapshot) unchanged,
  prints nothing and reads no input; it returns itself as the observer exactly when
  \<open>continue_mode\<close> is false, and the detaching \<open>None\<close> when \<open>continue_mode\<close> is true.
\<close>

theorem non_line_event_passes_through:
  assumes "event \<noteq> ''line''"
  shows "trace_function src st fr event evs out =
           Returned (if continue_mode st then Detach else KeepObserving) st out evs"
  using assms by (simp add: trace_function_def observer_decision_def)

theorem non_line_event_passes_through_witness:
  "''call'' \<noteq> ''line''
   \<and> trace_function demo_src init demo_frame ''call'' [Line ''n''] [] =
       Returned (if continue_mode init then Detach else KeepObserving) init [] [Line ''n'']"
proof -
  have h: "''call'' \<noteq> ''line''" by simp
  show ?thesis
    using h non_line_event_passes_through [OF h, of demo_src init demo_frame "[Line ''n'']" "[]"]
    by simp
qed

text \<open>
  C7 as stated fails in continue mode: on a \<open>call\<close> event the callback does not
  return itself, it returns the detaching decision.
\<close>

theorem non_line_event_counterexample:
  "trace_function demo_src (init\<lparr>continue_mode := True\<rparr>) demo_frame ''call'' [] [] =
     Returned Detach (init\<lparr>continue_mode := True\<rparr>) [] []"
  by (simp add: trace_function_def observer_decision_def init_def)

section \<open>Continue mode\<close>

lemma trace_function_continuing:
  assumes "continue_mode st"
  shows "trace_function src st fr event evs out =
           Returned Detach
             (if event = ''line'' then st\<lparr>current_frame := Some (getframeinfo fr), step_mode := False\<rparr> else st)
             out evs"
  using assms by (simp add: trace_function_def observer_decision_def Let_def)

lemma session_continuing:
  "continue_mode st \<Longrightarrow>
   \<exists>st'. session src st events evs out = Returned (replicate (length events) Detach) st' out evs
         \<and> continue_mode st'"
proof (induction events arbitrary: st)
  case Nil
  then show ?case by simp
next
  case (Cons a events)
  obtain fr event where a: "a = (fr, event)" by (cases a) auto
  let ?st1 = "if event = ''line'' then st\<lparr>current_frame := Some (getframeinfo fr), step_mode := False\<rparr> else st"
  have t: "trace_function src st fr event evs out = Returned Detach ?st1 out evs"
    using Cons.prems by (rule trace_function_continuing)
  have "continue_mode ?st1" using Cons.prems by simp
  then obtain st' where s: "session src ?st1 events evs out = Returned (replicate (length events) Detach) st' out evs"
    and c: "continue_mode st'"
    using Cons.IH by blast
  have "session src st (a # events) evs out = Returned (replicate (length (a # events)) Detach) st' out evs"
    unfolding a using t s by simp
  with c show ?case by blast
qed

lemma trace_function_decision:
  "trace_function src st fr event evs out = Returned d st' out' evs' \<Longrightarrow>
   (d = KeepObserving) = (\<not> continue_mode st')"
  by (auto simp: trace_function_def observer_decision_def Let_def split: if_splits outcome.splits)

lemma continue_resumes:
  assumes "split_maxsplit1 cmd = ''c'' # args"
  shows "prompt_command (commands src) st (Line cmd # evs) out =
           Returned () (st\<lparr>continue_mode := True\<rparr>) (out @ [prompt]) evs"
proof -
  have "dispatch_line (commands src) st cmd (out @ [prompt]) =
      Inr (ResumeExecution, st\<lparr>continue_mode := True\<rparr>, out @ [prompt])"
    using dispatch_line_known [OF assms map_of_commands(5)] by (simp add: continue_def)
  then have "prompt_step (commands src) st (Line cmd) out =
      Inr (ResumeExecution, st\<lparr>continue_mode := True\<rparr>, out @ [prompt])"
    by (simp add: prompt_step_def)
  then show ?thesis by (rule prompt_command_resume)
qed

text \<open>
  C6: the command \<open>c\<close> ends the prompt loop with \<open>continue_mode\<close> set, and the
  callback in which it was entered returns the detaching decision. From a state in
  continue mode, every further sequence of events, of any kinds, is handled with the
  output unchanged (nothing rendered) and the input unread (no prompt), every decision
  is the detaching one, and \<open>continue_mode\<close> is still set at the end. Whenever the
  callback returns, its decision is to keep observing exactly when \<open>continue_mode\<close>
  is false.
\<close>

theorem continue_is_one_way:
  "(split_maxsplit1 cmd = ''c'' # args \<and> \<not> continue_mode st \<longrightarrow>
      prompt_command (commands src) st (Line cmd # evs) out =
        Returned () (st\<lparr>continue_mode := True\<rparr>) (out @ [prompt]) evs
      \<and> trace_function src st fr ''line'' (Line cmd # evs) out =
        Returned Detach
          (st\<lparr>current_frame := Some (getframeinfo fr), continue_mode := True, step_mode := False\<rparr>)
          (show_current_line src (st\<lparr>current_frame := Some (getframeinfo fr)\<rparr>) out @ [prompt]) evs)
   \<and> (continue_mode st \<longrightarrow>
        (\<exists>st'. session src st events evs out = Returned (replicate (length events) Detach) st' out evs
               \<and> continue_mode st'))
   \<and> (trace_function src st fr event evs out = Returned d st1 out1 evs1 \<longrightarrow>
        (d = KeepObserving) = (\<not> continue_mode st1))"
proof -
  have a: "prompt_command (commands src) st (Line cmd # evs) out =
        Returned () (st\<lparr>continue_mode := True\<rparr>) (out @ [prompt]) evs"
    if "split_maxsplit1 cmd = ''c'' # args"
    using that by (rule continue_resumes)
  have b: "trace_function src st fr ''line'' (Line cmd # evs) out =
        Returned Detach
          (st\<lparr>current_frame := Some (getframeinfo fr), continue_mode := True, step_mode := False\<rparr>)
          (show_current_line src (st\<lparr>current_frame := Some (getframeinfo fr)\<rparr>) out @ [prompt]) evs"
    if c: "split_maxsplit1 cmd = ''c'' # args" and n: "\<not> continue_mode st"
    using n by (simp add: trace_function_def Let_def continue_resumes [OF c] observer_decision_def
        del: prompt_command.simps)
  from a b session_continuing trace_function_decision show ?thesis by blast
qed

theorem continue_is_one_way_witness:
  "(split_maxsplit1 ''c'' = [''c''] \<and> \<not> continue_mode init)
   \<and> trace_function demo_src init demo_frame ''line'' [Line ''c'', Line ''q''] [] =
       Returned Detach
         (init\<lparr>current_frame := Some (getframeinfo demo_frame), continue_mode := True, step_mode := False\<rparr>)
         (show_current_line demo_src (init\<lparr>current_frame := Some (getframeinfo demo_frame)\<rparr>) [] @ [prompt])
         [Line ''q'']
   \<and> continue_mode (init\<lparr>continue_mode := True\<rparr>)
   \<and> (\<exists>st'. session demo_src (init\<lparr>continue_mode := True\<rparr>)
               [(demo_frame, ''line''), (demo_frame, ''call''), (demo_frame, ''line'')] [Line ''q''] [] =
             Returned [Detach, Detach, Detach] st' [] [Line ''q'']
          \<and> continue_mode st')
   \<and> trace_function demo_src init demo_frame ''call'' [] [] = Returned KeepObserving init [] []
   \<and> (KeepObserving = KeepObserving) = (\<not> continue_mode init)"
proof -
  have h: "split_maxsplit1 ''c'' = ''c'' # [] \<and> \<not> continue_mode init"
    by (simp add: init_def split_maxsplit1_def py_isspace_def)
  have c: "continue_mode (init\<lparr>continue_mode := True\<rparr>)" by simp
  have r: "trace_function demo_src init demo_frame ''call'' [] [] = Returned KeepObserving init [] []"
    by (simp add: trace_function_def observer_decision_def init_def)
  show ?thesis
    using h c r
      continue_is_one_way [of "''c''" "[]" init demo_src "[Line ''q'']" "[]" demo_frame
        "[]" "''call''" KeepObserving init "[]" "[]"]
      continue_is_one_way [of "''c''" "[]" "init\<lparr>continue_mode := True\<rparr>" demo_src "[Line ''q'']" "[]" demo_frame
        "[(demo_frame, ''line''), (demo_frame, ''call''), (demo_frame, ''line'')]" "''call''" KeepObserving init "[]" "[]"]
      continue_is_one_way [of "''c''" "[]" init demo_src "[]" "[]" demo_frame
        "[]" "''call''" KeepObserving init "[]" "[]"]
    by (simp del: prompt_command.simps session.simps)
qed

section \<open>Failures inside the prompt loop\<close>





section \<open>Quitting\<close>

text \<open>
  C9: for every input line whose command is \<open>q\<close>, whatever follows it on the line, the
  handler raises \<open>SystemExit\<close> with code 0 and the exception leaves the prompt loop:
  neither \<open>except\<close> clause takes it, nothing is printed after the prompt, no further
  input is read and the loop is not resumed. It leaves the callback too, and the
  session ends there with the remaining events undelivered.
\<close>

theorem quit_exits_process:
  assumes "split_maxsplit1 cmd = ''q'' # args"
  shows "prompt_command (commands src) st (Line cmd # evs) out =
           Propagated (SystemExit 0) st (out @ [prompt]) evs
         \<and> (\<not> continue_mode st \<longrightarrow>
              session src st ((fr, ''line'') # rest) (Line cmd # evs) out =
                Propagated (SystemExit 0) (st\<lparr>current_frame := Some (getframeinfo fr)\<rparr>)
                  (show_current_line src (st\<lparr>current_frame := Some (getframeinfo fr)\<rparr>) out @ [prompt]) evs)"
proof -
  have p: "prompt_command (commands src) s (Line cmd # evs) out1 = Propagated (SystemExit 0) s (out1 @ [prompt]) evs"
    for s out1
  proof -
    have "dispatch_line (commands src) s cmd (out1 @ [prompt]) = Inl (SystemExit 0)"
      using dispatch_line_known [OF assms map_of_commands(7)] by (simp add: quit_def)
    then have "prompt_step (commands src) s (Line cmd) out1 = Inl (SystemExit 0)"
      by (simp add: prompt_step_def)
    then show ?thesis by (rule prompt_command_raise)
  qed
  have "session src st ((fr, ''line'') # rest) (Line cmd # evs) out =
                Propagated (SystemExit 0) (st\<lparr>current_frame := Some (getframeinfo fr)\<rparr>)
                  (show_current_line src (st\<lparr>current_frame := Some (getframeinfo fr)\<rparr>) out @ [prompt]) evs"
    if "\<not> continue_mode st"
    using that by (simp add: trace_function_def Let_def p del: prompt_command.simps)
  with p show ?thesis by blast
qed

theorem quit_exits_process_witness:
  "split_maxsplit1 ''q now'' = [''q'', ''now'']
   \<and> prompt_command (commands demo_src) init [Line ''q now'', Line ''n''] [] =
       Propagated (SystemExit 0) init [prompt] [Line ''n'']
   \<and> \<not> continue_mode init
   \<and> session demo_src init [(demo_frame, ''line''), (demo_frame, ''line'')] [Line ''q now'', Line ''n''] [] =
       Propagated (SystemExit 0) (init\<lparr>current_frame := Some (getframeinfo demo_frame)\<rparr>)
         (show_current_line demo_src (init\<lparr>current_frame := Some (getframeinfo demo_frame)\<rparr>) [] @ [prompt])
         [Line ''n'']"
proof -
  have h: "split_maxsplit1 ''q now'' = ''q'' # [''now'']"
    by (simp add: split_maxsplit1_def py_isspace_def)
  have c: "\<not> continue_mode init" by (simp add: init_def)
  show ?thesis
    using h c quit_exits_process [OF h, of demo_src init "[Line ''n'']" "[]" demo_frame "[(demo_frame, ''line'')]"]
    by (simp del: prompt_command.simps session.simps)
qed

section \<open>The step flag is never read\<close>

lemma visible_eq:
  "visible st = visible st' \<longleftrightarrow> continue_mode st = continue_mode st' \<and> current_frame st = current_frame st'"
  by (simp add: visible_def)

text \<open>
  Each layer of the debugger gives the same result with and without the flag, up to
  the flag itself: first one dispatched line, then one pass of the loop, the loop, the
  callback, and the session.
\<close>

lemma dispatch_line_sim:
  assumes "visible st = visible st'"
  shows "map_sum id (\<lambda>(po, s, out). (po, visible s, out)) (dispatch_line (commands src) st cmd out) =
         map_sum id (\<lambda>(po, s, out). (po, visible s, out)) (dispatch_line (nf_commands src) st' cmd out)"
proof -
  from assms have c: "current_frame st' = current_frame st" and m: "continue_mode st' = continue_mode st"
    by (simp_all add: visible_eq)
  have f: "current_frame_frame st' = current_frame_frame st"
    by (simp add: current_frame_frame_def c)
  show ?thesis
    by (simp add: dispatch_line_def commands_def nf_commands_def Let_def help_cmd_def step_def nf_step_def
        continue_def print_variable_def list_variables_def list_source_def quit_def f c m visible_def
        split: list.split sum.split excn.split)
qed

lemma prompt_step_sim:
  assumes "visible st = visible st'"
  shows "map_sum id (\<lambda>(po, s, out). (po, visible s, out)) (prompt_step (commands src) st ev out) =
         map_sum id (\<lambda>(po, s, out). (po, visible s, out)) (prompt_step (nf_commands src) st' ev out)"
proof (cases ev)
  case (Raises e)
  then show ?thesis using assms by (cases e) (simp_all add: prompt_step_def)
next
  case (Line cmd)
  have d: "map_sum id (\<lambda>(po, s, out). (po, visible s, out)) (dispatch_line (commands src) st cmd (out @ [prompt])) =
         map_sum id (\<lambda>(po, s, out). (po, visible s, out)) (dispatch_line (nf_commands src) st' cmd (out @ [prompt]))"
    using assms by (rule dispatch_line_sim)
  show ?thesis
  proof (cases "dispatch_line (commands src) st cmd (out @ [prompt])")
    case (Inl e)
    with d have "dispatch_line (nf_commands src) st' cmd (out @ [prompt]) = Inl e"
      by (cases "dispatch_line (nf_commands src) st' cmd (out @ [prompt])") simp_all
    with Inl Line assms show ?thesis by (cases e) (simp_all add: prompt_step_def)
  next
    case (Inr r)
    with d obtain r' where r': "dispatch_line (nf_commands src) st' cmd (out @ [prompt]) = Inr r'"
      by (cases "dispatch_line (nf_commands src) st' cmd (out @ [prompt])") simp_all
    with Inr Line d show ?thesis by (simp add: prompt_step_def)
  qed
qed

lemma prompt_command_sim:
  "visible st = visible st' \<Longrightarrow>
   map_outcome id visible (prompt_command (commands src) st evs out) =
   map_outcome id visible (prompt_command (nf_commands src) st' evs out)"
proof (induction evs arbitrary: st st' out)
  case Nil
  then show ?case by simp
next
  case (Cons ev evs)
  have s: "map_sum id (\<lambda>(po, s, out). (po, visible s, out)) (prompt_step (commands src) st ev out) =
         map_sum id (\<lambda>(po, s, out). (po, visible s, out)) (prompt_step (nf_commands src) st' ev out)"
    using Cons.prems by (rule prompt_step_sim)
  show ?case
  proof (cases "prompt_step (commands src) st ev out")
    case (Inl e)
    with s have "prompt_step (nf_commands src) st' ev out = Inl e"
      by (cases "prompt_step (nf_commands src) st' ev out") simp_all
    with Inl Cons.prems show ?thesis by simp
  next
    case (Inr r)
    obtain po s1 out1 where r: "r = (po, s1, out1)" by (cases r) auto
    from s Inr r obtain s1' where r': "prompt_step (nf_commands src) st' ev out = Inr (po, s1', out1)"
      and v: "visible s1 = visible s1'"
      by (cases "prompt_step (nf_commands src) st' ev out") auto
    show ?thesis
    proof (cases po)
      case ResumeExecution
      with Inr r r' v show ?thesis by simp
    next
      case KeepPrompting
      have l: "prompt_command (commands src) st (ev # evs) out = prompt_command (commands src) s1 evs out1"
        using Inr r KeepPrompting by (simp add: prompt_command_keep)
      have l': "prompt_command (nf_commands src) st' (ev # evs) out = prompt_command (nf_commands src) s1' evs out1"
        using r' KeepPrompting by (simp add: prompt_command_keep)
      show ?thesis unfolding l l' using v by (rule Cons.IH)
    qed
  qed
qed

lemma show_current_line_visible:
  "current_frame st = current_frame st' \<Longrightarrow> show_current_line src st out = show_current_line src st' out"
  by (simp add: show_current_line_def)

lemma trace_function_sim:
  assumes "visible st = visible st'"
  shows "map_outcome id visible (trace_function src st fr event evs out) =
         map_outcome id visible (nf_trace_function src st' fr event evs out)"
proof -
  let ?st1 = "st\<lparr>current_frame := Some (getframeinfo fr)\<rparr>"
  let ?st1' = "st'\<lparr>current_frame := Some (getframeinfo fr)\<rparr>"
  from assms have c: "continue_mode st' = continue_mode st"
    by (simp add: visible_def)
  have v1: "visible ?st1 = visible ?st1'" using assms by (simp add: visible_def)
  have o: "show_current_line src ?st1' out = show_current_line src ?st1 out"
    by (rule show_current_line_visible) simp
  have p: "map_outcome id visible (prompt_command (commands src) ?st1 evs (show_current_line src ?st1 out)) =
           map_outcome id visible (prompt_command (nf_commands src) ?st1' evs (show_current_line src ?st1 out))"
    using v1 by (rule prompt_command_sim)
  show ?thesis
  proof (cases "event = ''line''")
    case False
    with assms show ?thesis
      by (simp add: trace_function_def nf_trace_function_def observer_decision_def visible_def)
  next
    case True
    show ?thesis
    proof (cases "continue_mode st")
      case True
      with \<open>event = ''line''\<close> c show ?thesis
        by (simp add: trace_function_def nf_trace_function_def observer_decision_def visible_def Let_def)
    next
      case False
      show ?thesis
      proof (cases "prompt_command (commands src) ?st1 evs (show_current_line src ?st1 out)")
        case (Returned u s2 out2 evs2)
        with p obtain u' s2' where "prompt_command (nf_commands src) ?st1' evs (show_current_line src ?st1 out) = Returned u' s2' out2 evs2"
          and "visible s2 = visible s2'"
          by (cases "prompt_command (nf_commands src) ?st1' evs (show_current_line src ?st1 out)") auto
        with Returned False \<open>event = ''line''\<close> c o show ?thesis
          by (simp add: trace_function_def nf_trace_function_def observer_decision_def visible_def Let_def)
      next
        case (Propagated e s2 out2 evs2)
        with p obtain s2' where "prompt_command (nf_commands src) ?st1' evs (show_current_line src ?st1 out) = Propagated e s2' out2 evs2"
          and "visible s2 = visible s2'"
          by (cases "prompt_command (nf_commands src) ?st1' evs (show_current_line src ?st1 out)") auto
        with Propagated False \<open>event = ''line''\<close> c o show ?thesis
          by (simp add: trace_function_def nf_trace_function_def Let_def)
      next
        case (Waiting s2 out2)
        with p obtain s2' where "prompt_command (nf_commands src) ?st1' evs (show_current_line src ?st1 out) = Waiting s2' out2"
          and "visible s2 = visible s2'"
          by (cases "prompt_command (nf_commands src) ?st1' evs (show_current_line src ?st1 out)") auto
        with Waiting False \<open>event = ''line''\<close> c o show ?thesis
          by (simp add: trace_function_def nf_trace_function_def Let_def)
      qed
    qed
  qed
qed

lemma session_sim:
  "visible st = visible st' \<Longrightarrow>
   map_outcome id visible (session src st events evs out) =
   map_outcome id visible (nf_session src st' events evs out)"
proof (induction events arbitrary: st st' evs out)
  case Nil
  then show ?case by simp
next
  case (Cons a events)
  obtain fr event where a: "a = (fr, event)" by (cases a) auto
  have t: "map_outcome id visible (trace_function src st fr event evs out) =
         map_outcome id visible (nf_trace_function src st' fr event evs out)"
    using Cons.prems by (rule trace_function_sim)
  show ?case
  proof (cases "trace_function src st fr event evs out")
    case (Returned d s1 out1 evs1)
    with t obtain s1' where n: "nf_trace_function src st' fr event evs out = Returned d s1' out1 evs1"
      and v: "visible s1 = visible s1'"
      by (cases "nf_trace_function src st' fr event evs out") auto
    have ih: "map_outcome id visible (session src s1 events evs1 out1) =
          map_outcome id visible (nf_session src s1' events evs1 out1)"
      using v by (rule Cons.IH)
    show ?thesis
    proof (cases "session src s1 events evs1 out1")
      case r: (Returned ds s2 out2 evs2)
      with ih obtain s2' where "nf_session src s1' events evs1 out1 = Returned ds s2' out2 evs2"
        and "visible s2 = visible s2'"
        by (cases "nf_session src s1' events evs1 out1") auto
      with r Returned n a show ?thesis by simp
    next
      case r: (Propagated e s2 out2 evs2)
      with ih obtain s2' where "nf_session src s1' events evs1 out1 = Propagated e s2' out2 evs2"
        and "visible s2 = visible s2'"
        by (cases "nf_session src s1' events evs1 out1") auto
      with r Returned n a show ?thesis by simp
    next
      case r: (Waiting s2 out2)
      with ih obtain s2' where "nf_session src s1' events evs1 out1 = Waiting s2' out2"
        and "visible s2 = visible s2'"
        by (cases "nf_session src s1' events evs1 out1") auto
      with r Returned n a show ?thesis by simp
    qed
  next
    case (Propagated e s1 out1 evs1)
    with t obtain s1' where "nf_trace_function src st' fr event evs out = Propagated e s1' out1 evs1"
      and "visible s1 = visible s1'"
      by (cases "nf_trace_function src st' fr event evs out") auto
    with Propagated a show ?thesis by simp
  next
    case (Waiting s1 out1)
    with t obtain s1' where "nf_trace_function src st' fr event evs out = Waiting s1' out1"
      and "visible s1 = visible s1'"
      by (cases "nf_trace_function src st' fr event evs out") auto
    with Waiting a show ?thesis by simp
  qed
qed

lemma nf_step_resumes:
  assumes "split_maxsplit1 cmd = ''n'' # args"
  shows "prompt_command (nf_commands src) st (Line cmd # evs) out = Returned () st (out @ [prompt]) evs"
proof -
  have m: "map_of (nf_commands src) ''n'' = Some nf_step" by (simp add: nf_commands_def)
  have "dispatch_line (nf_commands src) st cmd (out @ [prompt]) = Inr (ResumeExecution, st, out @ [prompt])"
    using dispatch_line_known [OF assms m] by (simp add: nf_step_def)
  then have "prompt_step (nf_commands src) st (Line cmd) out = Inr (ResumeExecution, st, out @ [prompt])"
    by (simp add: prompt_step_def)
  then show ?thesis by (rule prompt_command_resume)
qed

text \<open>
  C10: started from states that agree on \<open>continue_mode\<close> and the current snapshot,
  the debugger and the debugger without the flag give the same outcome for every
  event and for every session: the same output, the same input left unread, the same
  decisions, the same exception if one escapes, and states that again agree on
  everything but the flag. Without the flag, \<open>n\<close> still ends the prompt loop, and it
  leaves the state as it was, so \<open>continue_mode\<close> stays false and the next line
  event prompts again.
\<close>

theorem step_mode_is_write_only:
  "(visible st = visible st' \<longrightarrow>
      map_outcome id visible (trace_function src st fr event evs out) =
      map_outcome id visible (nf_trace_function src st' fr event evs out)
      \<and> map_outcome id visible (session src st events evs out) =
        map_outcome id visible (nf_session src st' events evs out))
   \<and> (split_maxsplit1 cmd = ''n'' # args \<longrightarrow>
        prompt_command (nf_commands src) st (Line cmd # evs) out = Returned () st (out @ [prompt]) evs)"
  using trace_function_sim session_sim nf_step_resumes by blast

theorem step_mode_is_write_only_witness:
  "visible (init\<lparr>step_mode := True\<rparr>) = visible init
   \<and> map_outcome id visible
       (trace_function demo_src (init\<lparr>step_mode := True\<rparr>) demo_frame ''line'' [Line ''n'', Line ''v'', Line ''c''] []) =
     map_outcome id visible
       (nf_trace_function demo_src init demo_frame ''line'' [Line ''n'', Line ''v'', Line ''c''] [])
   \<and> map_outcome id visible
       (session demo_src (init\<lparr>step_mode := True\<rparr>) [(demo_frame, ''call''), (demo_frame, ''line''), (demo_frame, ''line'')]
          [Line ''n'', Line ''v'', Line ''c''] []) =
     map_outcome id visible
       (nf_session demo_src init [(demo_frame, ''call''), (demo_frame, ''line''), (demo_frame, ''line'')]
          [Line ''n'', Line ''v'', Line ''c''] [])
   \<and> split_maxsplit1 ''n'' = [''n'']
   \<and> prompt_command (nf_commands demo_src) (init\<lparr>step_mode := True\<rparr>) [Line ''n'', Line ''v'', Line ''c''] [] =
       Returned () (init\<lparr>step_mode := True\<rparr>) [prompt] [Line ''v'', Line ''c'']"
proof -
  have v: "visible (init\<lparr>step_mode := True\<rparr>) = visible init"
    by (simp add: visible_def)
  have h: "split_maxsplit1 ''n'' = ''n'' # []"
    by (simp add: split_maxsplit1_def py_isspace_def)
  show ?thesis
    using v h
      step_mode_is_write_only [of "init\<lparr>step_mode := True\<rparr>" init demo_src demo_frame "''line''"
        "[Line ''n'', Line ''v'', Line ''c'']" "[]"
        "[(demo_frame, ''call''), (demo_frame, ''line''), (demo_frame, ''line'')]" "''n''" "[]"]
      step_mode_is_write_only [of "init\<lparr>step_mode := True\<rparr>" "init\<lparr>step_mode := True\<rparr>" demo_src demo_frame "''line''"
        "[Line ''v'', Line ''c'']" "[]"
        "[(demo_frame, ''call''), (demo_frame, ''line''), (demo_frame, ''line'')]" "''n''" "[]"]
    by (simp del: prompt_command.simps session.simps nf_session.simps)
qed

end
